theory Spec2Isabelle
  imports Complex_Main
begin

section \<open>Data model of a bill (src/main.py, \<open>new_bill_doc\<close> and \<open>add_item_to_bill\<close>)\<close>

text \<open>
  A bill is the MongoDB document built by \<open>new_bill_doc\<close>; an item is the dictionary built
  by \<open>add_item_to_bill\<close>; a claim is the dictionary \<open>{"user_id": .., "name": ..}\<close> appended
  to \<open>claimed_by\<close>. The records keep the source's keys (\<open>id\<close> and \<open>name\<close> are prefixed,
  since a record field is a global constant).

  User identifiers are Python ints. The source compares them as \<open>str(user_id)\<close>; \<open>str\<close> is
  injective on ints, so the model compares the ints. The dictionary \<open>members\<close> is ordered
  by insertion and is iterated by \<open>format_summary\<close> and \<open>cmd_assign\<close>, so it is an
  association list.

  A Python \<open>str\<close> that the handlers split, trim or fold (message texts and names) is the
  list of its Unicode code points, of type \<open>pystr\<close>. The currency and the fee mode are
  only stored and compared with ASCII literals; they are byte strings.

  The type parameter \<open>'n\<close> is the type of the numbers stored in the document (prices and
  percentages). The fee engine is read over the finite values, as real numbers (each
  double is one), with the rounding of the arithmetic as a parameter. The command handlers
  are read over \<open>pyfloat\<close>, which keeps the infinities and NaN that \<open>float()\<close> can return.
\<close>

type_synonym pystr = "nat list"

record claim =
  claim_user_id :: int
  claim_name :: pystr

record 'n item =
  item_id :: int
  item_name :: pystr
  price :: 'n
  claimed_by :: "claim list"

record 'n bill =
  chat_id :: int
  creator_id :: int
  creator_name :: pystr
  currency :: "string option"
  jpy_to_thb_rate :: "'n option"
  service_charge_pct :: "'n option"
  vat_pct :: "'n option"
  fees_mode :: "string option"
  items :: "'n item list"
  members :: "(int \<times> pystr) list"
  next_item_id :: int
  created_at :: int
  is_finalized :: bool
  finalized_at :: "int option"
  awaiting_photo :: bool
  awaiting_manual_rate :: bool
  awaiting_fees :: bool

section \<open>Python values\<close>

datatype error = ZeroDivisionError

text \<open>
  A float operation of Python is the exact operation followed by a rounding to the nearest
  double. The fee engine is parametrised by that rounding, of type \<open>rounding\<close>: with
  \<open>exact\<close> (no rounding) the arithmetic is that of the real numbers, with \<open>binary64\<close> it
  is that of IEEE 754 doubles.

  \<open>binary64 x\<close> rounds to 53 significant bits, ties to even: \<open>binade\<close> scales \<open>\<bar>x\<bar>\<close> by
  powers of two into \<open>[2^52, 2^53)\<close>, \<open>round_half_even\<close> rounds the scaled value to an
  integer. The scaling stops after 1074 steps: a value below \<open>2^-1022\<close> is rounded to a
  multiple of \<open>2^-1074\<close>, as the subnormal doubles are. Overflow to infinity is not
  modelled: \<open>binary64\<close> is the rounding of doubles for \<open>\<bar>x\<bar> < 2^1024\<close> only, and the
  fee engine below is that of the source as long as no operation overflows.
\<close>

type_synonym rounding = "real \<Rightarrow> real"

definition exact :: rounding where
  "exact x = x"





text \<open>\<open>a + b\<close>, \<open>a - b\<close>, \<open>a * b\<close> and, for a divisor that is a non-zero literal, \<open>a / b\<close>.\<close>

definition fadd :: "rounding \<Rightarrow> real \<Rightarrow> real \<Rightarrow> real" where
  "fadd rnd a b = rnd (a + b)"

definition fsub :: "rounding \<Rightarrow> real \<Rightarrow> real \<Rightarrow> real" where
  "fsub rnd a b = rnd (a - b)"

definition fmul :: "rounding \<Rightarrow> real \<Rightarrow> real \<Rightarrow> real" where
  "fmul rnd a b = rnd (a * b)"

definition fdiv :: "rounding \<Rightarrow> real \<Rightarrow> real \<Rightarrow> real" where
  "fdiv rnd a b = rnd (a / b)"

text \<open>Python's \<open>a / b\<close> on floats raises \<open>ZeroDivisionError\<close> when \<open>b\<close> is zero.\<close>

definition py_div :: "rounding \<Rightarrow> real \<Rightarrow> real \<Rightarrow> error + real" where
  "py_div rnd a b = (if b = 0 then Inl ZeroDivisionError else Inr (rnd (a / b)))"

text \<open>\<open>sum(xs)\<close>: the additions from left to right, starting at 0 (the compensated
  summation of recent CPython versions is not modelled).\<close>

definition py_sum :: "rounding \<Rightarrow> real list \<Rightarrow> real" where
  "py_sum rnd xs = foldl (fadd rnd) 0 xs"

text \<open>\<open>bill.get(key) or 0\<close>: \<open>None\<close> and \<open>0\<close> are both falsy.\<close>

definition or_zero :: "real option \<Rightarrow> real" where
  "or_zero v = (case v of None \<Rightarrow> 0 | Some x \<Rightarrow> (if x = 0 then 0 else x))"

text \<open>\<open>any(str(c["user_id"]) == uid_str for c in item["claimed_by"])\<close>, which is also what
  the inner loop of \<open>person_total\<close> (leave at the first match) decides.\<close>

definition claims_item :: "int \<Rightarrow> 'n item \<Rightarrow> bool" where
  "claims_item uid it = list_ex (\<lambda>c. claim_user_id c = uid) (claimed_by it)"

section \<open>Fee engine\<close>

definition item_per_person :: "rounding \<Rightarrow> real item \<Rightarrow> error + real" where
  "item_per_person rnd it =
     (let n = length (claimed_by it)
      in if n > 0 then py_div rnd (price it) (real n) else Inr (price it))"

text \<open>The loop of \<open>person_total\<close>, with the running \<open>total\<close> as the accumulator \<open>tot\<close>.\<close>

fun person_total_loop :: "rounding \<Rightarrow> real item list \<Rightarrow> int \<Rightarrow> real \<Rightarrow> error + real" where
  "person_total_loop rnd [] uid tot = Inr tot"
| "person_total_loop rnd (it # its) uid tot =
     (if claims_item uid it
      then (case item_per_person rnd it of
              Inl e \<Rightarrow> Inl e
            | Inr share \<Rightarrow> person_total_loop rnd its uid (fadd rnd tot share))
      else person_total_loop rnd its uid tot)"

definition person_total :: "rounding \<Rightarrow> real bill \<Rightarrow> int \<Rightarrow> error + real" where
  "person_total rnd b uid = person_total_loop rnd (items b) uid 0"

definition bill_total :: "rounding \<Rightarrow> real bill \<Rightarrow> real" where
  "bill_total rnd b = py_sum rnd (map price (items b))"

definition bill_grand_total :: "rounding \<Rightarrow> real bill \<Rightarrow> real" where
  "bill_grand_total rnd b =
     (let subtotal = bill_total rnd b;
          sc_pct = or_zero (service_charge_pct b);
          vat_pct = or_zero (vat_pct b);
          mode = fees_mode b
      in if mode = Some ''both_inclusive'' then subtotal
         else if mode = Some ''sc_exclusive_vat_inclusive''
         then fmul rnd subtotal (fadd rnd 1 (fdiv rnd sc_pct 100))
         else if mode = Some ''both_exclusive'' then
           (let after_sc = fmul rnd subtotal (fadd rnd 1 (fdiv rnd sc_pct 100))
            in fmul rnd after_sc (fadd rnd 1 (fdiv rnd vat_pct 100)))
         else subtotal)"


text \<open>The result is the tuple \<open>(item_subtotal, sc_amount, vat_amount, total)\<close>; the
  source's variable \<open>total\<close> is \<open>tot\<close> here.\<close>

definition person_fee_breakdown ::
  "rounding \<Rightarrow> real bill \<Rightarrow> int \<Rightarrow> error + (real \<times> real \<times> real \<times> real)" where
  "person_fee_breakdown rnd b uid =
     (let subtotal = bill_total rnd b
      in if subtotal = 0 then Inr (0, 0, 0, 0)
         else (case person_total rnd b uid of
                 Inl e \<Rightarrow> Inl e
               | Inr p_sub \<Rightarrow>
          (let sc_pct = or_zero (service_charge_pct b);
               vat_pct = or_zero (vat_pct b);
               mode = fees_mode b
           in if mode = Some ''both_inclusive'' then
                (let divisor = fmul rnd (fadd rnd 1 (fdiv rnd sc_pct 100))
                                        (fadd rnd 1 (fdiv rnd vat_pct 100))
                 in case (if divisor \<noteq> 0 then py_div rnd p_sub divisor else Inr p_sub) of
                      Inl e \<Rightarrow> Inl e
                    | Inr base \<Rightarrow>
                        (let sc_amt = fdiv rnd (fmul rnd base sc_pct) 100;
                             vat_amt = fdiv rnd (fmul rnd (fadd rnd base sc_amt) vat_pct) 100
                         in Inr (p_sub, sc_amt, vat_amt, p_sub)))
              else if mode = Some ''sc_exclusive_vat_inclusive'' then
                (let tot = fmul rnd p_sub (fadd rnd 1 (fdiv rnd sc_pct 100));
                     sc_amt = fdiv rnd (fmul rnd p_sub sc_pct) 100
                 in case (if vat_pct \<noteq> 0
                          then py_div rnd tot (fadd rnd 1 (fdiv rnd vat_pct 100))
                          else Inr tot) of
                      Inl e \<Rightarrow> Inl e
                    | Inr before_vat \<Rightarrow>
                        (let vat_amt = fsub rnd tot before_vat
                         in Inr (p_sub, sc_amt, vat_amt, tot)))
              else if mode = Some ''both_exclusive'' then
                (let sc_amt = fdiv rnd (fmul rnd p_sub sc_pct) 100;
                     vat_amt = fdiv rnd (fmul rnd (fadd rnd p_sub sc_amt) vat_pct) 100;
                     tot = fadd rnd (fadd rnd p_sub sc_amt) vat_amt
                 in Inr (p_sub, sc_amt, vat_amt, tot))
              else Inr (p_sub, 0, 0, p_sub))))"

section \<open>Values read by the command handlers\<close>

text \<open>
  What \<open>float(s)\<close> returns: a finite value, an infinity (\<open>float("inf")\<close>) or NaN
  (\<open>float("nan")\<close>). The comparisons are Python's: every comparison with NaN is false.
  \<open>py_le0 x\<close> is \<open>x <= 0\<close>, \<open>py_lt0 x\<close> is \<open>x < 0\<close>, \<open>py_gt0 x\<close> is \<open>x > 0\<close> and
  \<open>py_truthy x\<close> is the truth value of \<open>x\<close> (false for zero only).
\<close>

datatype pyfloat = Fin real | PInf | NInf | NaN

fun py_le0 :: "pyfloat \<Rightarrow> bool" where
  "py_le0 (Fin r) = (r \<le> 0)"
| "py_le0 NInf = True"
| "py_le0 PInf = False"
| "py_le0 NaN = False"

fun py_lt0 :: "pyfloat \<Rightarrow> bool" where
  "py_lt0 (Fin r) = (r < 0)"
| "py_lt0 NInf = True"
| "py_lt0 PInf = False"
| "py_lt0 NaN = False"

fun py_gt0 :: "pyfloat \<Rightarrow> bool" where
  "py_gt0 (Fin r) = (r > 0)"
| "py_gt0 PInf = True"
| "py_gt0 NInf = False"
| "py_gt0 NaN = False"

fun py_truthy :: "pyfloat \<Rightarrow> bool" where
  "py_truthy (Fin r) = (r \<noteq> 0)"
| "py_truthy PInf = True"
| "py_truthy NInf = True"
| "py_truthy NaN = True"

text \<open>
  \<open>is_space\<close> holds of the code points that \<open>str.isspace\<close>, and with it \<open>str.strip()\<close>
  and \<open>str.rsplit(None, ..)\<close>, treat as whitespace. \<open>strip\<close> is \<open>str.strip()\<close>.
  \<open>rsplit1 s\<close> is \<open>s.rsplit(None, 1)\<close>: trailing whitespace is dropped, the last word is
  split off, and what is left of it (if anything but whitespace) is the first part, with its
  leading whitespace kept.
\<close>

definition is_space :: "nat \<Rightarrow> bool" where
  "is_space c = (c \<in> set [0x09, 0x0A, 0x0B, 0x0C, 0x0D, 0x1C, 0x1D, 0x1E, 0x1F, 0x20,
                            0x85, 0xA0, 0x1680,
                            0x2000, 0x2001, 0x2002, 0x2003, 0x2004, 0x2005,
                            0x2006, 0x2007, 0x2008, 0x2009, 0x200A,
                            0x2028, 0x2029, 0x202F, 0x205F, 0x3000])"

definition strip :: "pystr \<Rightarrow> pystr" where
  "strip s = rev (dropWhile is_space (rev (dropWhile is_space s)))"

definition rsplit1 :: "pystr \<Rightarrow> pystr list" where
  "rsplit1 s =
     (let r = dropWhile is_space (rev s);
          w = takeWhile (\<lambda>c. \<not> is_space c) r;
          rest = dropWhile is_space (dropWhile (\<lambda>c. \<not> is_space c) r)
      in if r = [] then []
         else if rest = [] then [rev w]
         else [rev rest, rev w])"

section \<open>Ledger and command handlers\<close>

text \<open>
  A Telegram user, as far as the handlers look at one: \<open>user.id\<close> and the result of
  \<open>get_display_name(user)\<close>.
\<close>

record user =
  user_id :: int
  display_name :: pystr

text \<open>\<open>now\<close> stands for \<open>datetime.now(timezone.utc)\<close>.\<close>

definition new_bill_doc :: "int \<Rightarrow> int \<Rightarrow> pystr \<Rightarrow> int \<Rightarrow> 'n bill" where
  "new_bill_doc chat creator creator_nm now =
     \<lparr> chat_id = chat, creator_id = creator, creator_name = creator_nm,
       currency = None, jpy_to_thb_rate = None, service_charge_pct = None, vat_pct = None,
       fees_mode = None, items = [], members = [(creator, creator_nm)], next_item_id = 1,
       created_at = now, is_finalized = False, finalized_at = None, awaiting_photo = False,
       awaiting_manual_rate = False, awaiting_fees = False \<rparr>"

text \<open>\<open>add_item_to_bill\<close> returns the new item; the model also returns the saved bill.\<close>

definition add_item_to_bill :: "'n bill \<Rightarrow> pystr \<Rightarrow> 'n \<Rightarrow> 'n item \<times> 'n bill" where
  "add_item_to_bill b nm p =
     (let item = \<lparr> item_id = next_item_id b, item_name = nm, price = p, claimed_by = [] \<rparr>
      in (item, b\<lparr> items := items b @ [item], next_item_id := next_item_id b + 1 \<rparr>))"

definition get_item :: "'n bill \<Rightarrow> int \<Rightarrow> 'n item option" where
  "get_item b i = find (\<lambda>it. item_id it = i) (items b)"

text \<open>
  The handlers mutate the dictionary returned by \<open>get_item\<close> in place, that is the first
  item of the list that carries the identifier.
\<close>

fun update_item :: "int \<Rightarrow> ('n item \<Rightarrow> 'n item) \<Rightarrow> 'n item list \<Rightarrow> 'n item list" where
  "update_item i f [] = []"
| "update_item i f (it # its) =
     (if item_id it = i then f it # its else it # update_item i f its)"

text \<open>\<open>uid_str in bill["members"]\<close>.\<close>

definition is_member :: "int \<Rightarrow> 'n bill \<Rightarrow> bool" where
  "is_member uid b = (uid \<in> set (map fst (members b)))"

text \<open>
  \<open>item["claimed_by"] = [c for c in item["claimed_by"] if str(c["user_id"]) != uid_str]\<close> and
  \<open>item["claimed_by"].append({"user_id": uid, "name": name})\<close>.
\<close>

definition remove_claims :: "int \<Rightarrow> 'n item \<Rightarrow> 'n item" where
  "remove_claims uid it = it\<lparr> claimed_by := filter (\<lambda>c. claim_user_id c \<noteq> uid) (claimed_by it) \<rparr>"

definition append_claim :: "int \<Rightarrow> pystr \<Rightarrow> 'n item \<Rightarrow> 'n item" where
  "append_claim uid nm it =
     it\<lparr> claimed_by := claimed_by it @ [\<lparr> claim_user_id = uid, claim_name = nm \<rparr>] \<rparr>"

text \<open>
  What a handler answers. A \<open>refusal\<close> is an answer after which the handler returns without
  having written anything; a \<open>notice\<close> is any other answer. The constructors are named after
  the messages of the source.
\<close>

datatype refusal =
    AlreadyActiveBill | AlreadyIn
  | AddItemUsage | ProvideNameAndPrice | InvalidPrice
  | NoItemsYet | JoinFirst | PickUsage | UnpickUsage | ItemNotFound | AlreadyPicked
  | OnlyCreatorAssign | AssignUsage | NotJoinedYet pystr | AlreadyHas pystr int
  | SetFeesUsage | NoItemsInBill | OnlyCreatorCancel | OnlyCreatorSet
  | AlertItemNotFound | NoItemsToFinalize | InvalidRate

datatype notice =
    Joined | Added int pystr pyfloat | ItemsList | Picked | Removed | Assigned
  | PicksCleared nat | NoPicks | CurrentFees | FeesModePicker | FeesSet | Summary
  | BillCancelled | CurrencySet string | RateFetched | RateFetchFailed | EnterRate
  | SendPhoto | AddManually | FeesConfirmed | FeesEditPrompt | NoFeesApplied
  | RemovedFrom int | PickedItem int | ExtractFailed | Extracted | RateSet | NoReply

datatype reply = Refused refusal | Replied notice

text \<open>
  Every handler starts with \<open>bill = get_active_bill(chat_id)\<close>. The functions below take that
  bill and return the answer together with the document the database holds afterwards
  (\<open>None\<close> once it is deleted). Arguments that the source parses out of the message with a
  regular expression, or converts with \<open>float()\<close>, arrive parsed: \<open>None\<close> stands for "no
  match" or for \<open>ValueError\<close>.
\<close>

definition cmd_newbill :: "pyfloat bill \<Rightarrow> reply \<times> pyfloat bill option" where
  "cmd_newbill b = (Refused AlreadyActiveBill, Some b)"

definition cmd_join :: "pyfloat bill \<Rightarrow> user \<Rightarrow> reply \<times> pyfloat bill option" where
  "cmd_join b u =
     (if is_member (user_id u) b then (Refused AlreadyIn, Some b)
      else (Replied Joined, Some (b\<lparr> members := members b @ [(user_id u, display_name u)] \<rparr>)))"

text \<open>
  \<open>text\<close> is the message with the command stripped (the result of \<open>re.sub\<close>), and
  \<open>price_result\<close> is the value of \<open>float(parts[1].replace(",", ""))\<close>.
\<close>

definition cmd_additem :: "pyfloat bill \<Rightarrow> pystr \<Rightarrow> pyfloat option \<Rightarrow> reply \<times> pyfloat bill option" where
  "cmd_additem b text price_result =
     (if text = [] then (Refused AddItemUsage, Some b)
      else (case rsplit1 text of
              [part0, part1] \<Rightarrow>
                (case price_result of
                   None \<Rightarrow> (Refused InvalidPrice, Some b)
                 | Some p \<Rightarrow>
                     if py_le0 p then (Refused InvalidPrice, Some b)
                     else (let (item, b') = add_item_to_bill b (strip part0) p
                           in (Replied (Added (item_id item) (item_name item) (price item)), Some b')))
            | _ \<Rightarrow> (Refused ProvideNameAndPrice, Some b)))"

definition cmd_items :: "pyfloat bill \<Rightarrow> reply \<times> pyfloat bill option" where
  "cmd_items b = (if items b = [] then (Refused NoItemsYet, Some b) else (Replied ItemsList, Some b))"

definition cmd_pick :: "pyfloat bill \<Rightarrow> user \<Rightarrow> int option \<Rightarrow> reply \<times> pyfloat bill option" where
  "cmd_pick b u arg =
     (if \<not> is_member (user_id u) b then (Refused JoinFirst, Some b)
      else (case arg of
              None \<Rightarrow> (Refused PickUsage, Some b)
            | Some i \<Rightarrow>
                (case get_item b i of
                   None \<Rightarrow> (Refused ItemNotFound, Some b)
                 | Some item \<Rightarrow>
                     if claims_item (user_id u) item then (Refused AlreadyPicked, Some b)
                     else (Replied Picked, Some (b\<lparr> items :=
                             update_item i (append_claim (user_id u) (display_name u)) (items b) \<rparr>)))))"

definition cmd_unpick :: "pyfloat bill \<Rightarrow> user \<Rightarrow> int option \<Rightarrow> reply \<times> pyfloat bill option" where
  "cmd_unpick b u arg =
     (case arg of
        None \<Rightarrow> (Refused UnpickUsage, Some b)
      | Some i \<Rightarrow>
          (case get_item b i of
             None \<Rightarrow> (Refused ItemNotFound, Some b)
           | Some item \<Rightarrow>
               (Replied Removed, Some (b\<lparr> items := update_item i (remove_claims (user_id u)) (items b) \<rparr>))))"

text \<open>
  The loop of \<open>cmd_assign\<close> over \<open>bill["members"].items()\<close>: the first member whose
  stored name equals \<open>"@" + target_username\<close> after both are folded by \<open>str.lower()\<close>. The
  case folding of Unicode is a table of the language and is taken as the parameter
  \<open>lower\<close>; 64 is the code point of \<open>@\<close>.
\<close>

definition find_member ::
  "(pystr \<Rightarrow> pystr) \<Rightarrow> (int \<times> pystr) list \<Rightarrow> pystr \<Rightarrow> (int \<times> pystr) option" where
  "find_member lower ms target_username =
     find (\<lambda>(uid, nm). lower nm = lower (64 # target_username)) ms"

definition cmd_assign ::
  "(pystr \<Rightarrow> pystr) \<Rightarrow> pyfloat bill \<Rightarrow> user \<Rightarrow> (int \<times> pystr) option
     \<Rightarrow> reply \<times> pyfloat bill option" where
  "cmd_assign lower b u arg =
     (if user_id u \<noteq> creator_id b then (Refused OnlyCreatorAssign, Some b)
      else (case arg of
              None \<Rightarrow> (Refused AssignUsage, Some b)
            | Some (i, target_username) \<Rightarrow>
                (case get_item b i of
                   None \<Rightarrow> (Refused ItemNotFound, Some b)
                 | Some item \<Rightarrow>
                     (case find_member lower (members b) target_username of
                        None \<Rightarrow> (Refused (NotJoinedYet target_username), Some b)
                      | Some (target_uid, target_name) \<Rightarrow>
                          if claims_item target_uid item
                          then (Refused (AlreadyHas target_name (item_id item)), Some b)
                          else (Replied Assigned, Some (b\<lparr> items :=
                                  update_item i (append_claim target_uid target_name) (items b) \<rparr>))))))"

definition cmd_resetpicks :: "pyfloat bill \<Rightarrow> user \<Rightarrow> reply \<times> pyfloat bill option" where
  "cmd_resetpicks b u =
     (let count = sum_list (map (\<lambda>it. length (claimed_by it)
                                        - length (claimed_by (remove_claims (user_id u) it))) (items b));
          b' = b\<lparr> items := map (remove_claims (user_id u)) (items b) \<rparr>
      in if count > 0 then (Replied (PicksCleared count), Some b') else (Replied NoPicks, Some b'))"

definition mode_map :: "string \<Rightarrow> string option" where
  "mode_map = map_of
     [(''both_inc'', ''both_inclusive''),
      (''both_inclusive'', ''both_inclusive''),
      (''inclusive'', ''both_inclusive''),
      (''inc'', ''both_inclusive''),
      (''sc_exc'', ''sc_exclusive_vat_inclusive''),
      (''sc_exclusive_vat_inclusive'', ''sc_exclusive_vat_inclusive''),
      (''sc_exclusive'', ''sc_exclusive_vat_inclusive''),
      (''both_exc'', ''both_exclusive''),
      (''both_exclusive'', ''both_exclusive''),
      (''exclusive'', ''both_exclusive''),
      (''exc'', ''both_exclusive'')]"

text \<open>
  \<open>/setfees\<close>: \<open>NoArgs\<close> is the empty argument text; otherwise \<open>float(parts[0])\<close>,
  \<open>float(parts[1])\<close> when there is a second word, and \<open>parts[2].lower()\<close> when there is a
  third.
\<close>

datatype setfees_args =
    NoArgs
  | Args "pyfloat option" "pyfloat option option" "string option"

definition cmd_setfees :: "pyfloat bill \<Rightarrow> setfees_args \<Rightarrow> reply \<times> pyfloat bill option" where
  "cmd_setfees b args =
     (case args of
        NoArgs \<Rightarrow> (Replied CurrentFees, Some b)
      | Args part0 part1 part2 \<Rightarrow>
          (case part0 of
             None \<Rightarrow> (Refused SetFeesUsage, Some b)
           | Some sc \<Rightarrow>
               (case (case part1 of None \<Rightarrow> Some (Fin 0) | Some r \<Rightarrow> r) of
                  None \<Rightarrow> (Refused SetFeesUsage, Some b)
                | Some vat \<Rightarrow>
                    if py_lt0 sc \<or> py_lt0 vat then (Refused SetFeesUsage, Some b)
                    else (let fees_mode' = (case part2 of None \<Rightarrow> None | Some flag \<Rightarrow> mode_map flag)
                          in if fees_mode' = None \<and> (py_gt0 sc \<or> py_gt0 vat)
                             then (Replied FeesModePicker, Some b)
                             else (Replied FeesSet, Some (b\<lparr> service_charge_pct := Some sc,
                                      vat_pct := Some vat,
                                      fees_mode := (if py_gt0 sc \<or> py_gt0 vat then fees_mode' else None),
                                      awaiting_fees := False \<rparr>))))))"

definition cmd_done :: "pyfloat bill \<Rightarrow> int \<Rightarrow> reply \<times> pyfloat bill option" where
  "cmd_done b now =
     (if items b = [] then (Refused NoItemsInBill, Some b)
      else (Replied Summary, Some (b\<lparr> is_finalized := True, finalized_at := Some now \<rparr>)))"

definition cmd_cancel :: "pyfloat bill \<Rightarrow> user \<Rightarrow> reply \<times> pyfloat bill option" where
  "cmd_cancel b u =
     (if user_id u \<noteq> creator_id b then (Refused OnlyCreatorCancel, Some b) else (Replied BillCancelled, None))"

text \<open>
  The callback data of the inline buttons, parsed. \<open>CbRateAuto\<close> carries what
  \<open>fetch_jpy_to_thb_rate\<close> returned, \<open>CbFinalize\<close> the current time. \<open>CbOther\<close> is any
  data that no branch of \<open>callback_handler\<close> matches.
\<close>

datatype callback_data =
    CbCurrency string
  | CbRateAuto "pyfloat option"
  | CbRateManual
  | CbInputPhoto
  | CbInputManual
  | CbFeesConfirm pyfloat pyfloat string
  | CbFeesPickmode pyfloat pyfloat
  | CbFeesEdit
  | CbFeesNone
  | CbPick int
  | CbFinalize int
  | CbOther

text \<open>The branch \<open>data.startswith("pick:")\<close> of \<open>callback_handler\<close>.\<close>

definition toggle_pick :: "pyfloat bill \<Rightarrow> user \<Rightarrow> int \<Rightarrow> reply \<times> pyfloat bill option" where
  "toggle_pick b u i =
     (case get_item b i of
        None \<Rightarrow> (Refused AlertItemNotFound, Some b)
      | Some item \<Rightarrow>
          (let b1 = (if \<not> is_member (user_id u) b
                     then b\<lparr> members := members b @ [(user_id u, display_name u)] \<rparr> else b);
               already = claims_item (user_id u) item
           in if already
              then (Replied (RemovedFrom (item_id item)),
                    Some (b1\<lparr> items := update_item i (remove_claims (user_id u)) (items b1) \<rparr>))
              else (Replied (PickedItem (item_id item)),
                    Some (b1\<lparr> items :=
                            update_item i (append_claim (user_id u) (display_name u)) (items b1) \<rparr>))))"

definition callback_handler :: "pyfloat bill \<Rightarrow> user \<Rightarrow> callback_data \<Rightarrow> reply \<times> pyfloat bill option" where
  "callback_handler b u data =
     (case data of
        CbCurrency cur \<Rightarrow>
          if user_id u \<noteq> creator_id b then (Refused OnlyCreatorSet, Some b)
          else (Replied (CurrencySet cur), Some (b\<lparr> currency := Some cur \<rparr>))
      | CbRateAuto fetched \<Rightarrow>
          (case fetched of
             None \<Rightarrow> (Replied RateFetchFailed, Some (b\<lparr> awaiting_manual_rate := True \<rparr>))
           | Some rate \<Rightarrow>
               if py_truthy rate then (Replied RateFetched, Some (b\<lparr> jpy_to_thb_rate := Some rate \<rparr>))
               else (Replied RateFetchFailed, Some (b\<lparr> awaiting_manual_rate := True \<rparr>)))
      | CbRateManual \<Rightarrow> (Replied EnterRate, Some (b\<lparr> awaiting_manual_rate := True \<rparr>))
      | CbInputPhoto \<Rightarrow> (Replied SendPhoto, Some (b\<lparr> awaiting_photo := True \<rparr>))
      | CbInputManual \<Rightarrow> (Replied AddManually, Some b)
      | CbFeesConfirm sc vat mode \<Rightarrow>
          (Replied FeesConfirmed, Some (b\<lparr> service_charge_pct := Some sc, vat_pct := Some vat,
                                   fees_mode := Some mode, awaiting_fees := False \<rparr>))
      | CbFeesPickmode sc vat \<Rightarrow> (Replied FeesModePicker, Some b)
      | CbFeesEdit \<Rightarrow> (Replied FeesEditPrompt, Some (b\<lparr> awaiting_fees := True \<rparr>))
      | CbFeesNone \<Rightarrow>
          (Replied NoFeesApplied, Some (b\<lparr> service_charge_pct := Some (Fin 0), vat_pct := Some (Fin 0),
                                   fees_mode := None, awaiting_fees := False \<rparr>))
      | CbPick i \<Rightarrow> toggle_pick b u i
      | CbFinalize now \<Rightarrow>
          if items b = [] then (Refused NoItemsToFinalize, Some b)
          else (Replied Summary, Some (b\<lparr> is_finalized := True, finalized_at := Some now \<rparr>))
      | CbOther \<Rightarrow> (Replied NoReply, Some b))"

text \<open>\<open>photo_handler\<close>, given the items that \<open>parse_receipt_ocr\<close> extracted.\<close>

fun add_items :: "pyfloat bill \<Rightarrow> (pystr \<times> pyfloat) list \<Rightarrow> pyfloat bill" where
  "add_items b [] = b"
| "add_items b ((nm, p) # rest) = add_items (snd (add_item_to_bill b nm p)) rest"

definition photo_handler :: "pyfloat bill \<Rightarrow> (pystr \<times> pyfloat) list \<Rightarrow> reply \<times> pyfloat bill option" where
  "photo_handler b ocr_items =
     (let b0 = b\<lparr> awaiting_photo := False \<rparr>
      in if ocr_items = [] then (Replied ExtractFailed, Some b0)
         else (Replied Extracted, Some (add_items b0 ocr_items)))"

definition text_handler :: "pyfloat bill \<Rightarrow> pyfloat option \<Rightarrow> reply \<times> pyfloat bill option" where
  "text_handler b parsed =
     (if \<not> awaiting_manual_rate b then (Replied NoReply, Some b)
      else (case parsed of
              None \<Rightarrow> (Refused InvalidRate, Some b)
            | Some rate \<Rightarrow>
                if py_le0 rate then (Refused InvalidRate, Some b)
                else (Replied RateSet, Some (b\<lparr> jpy_to_thb_rate := Some rate,
                                        awaiting_manual_rate := False \<rparr>))))"

text \<open>
  One chat event for the active bill, and the handler it is routed to; \<open>lower\<close> is
  \<open>str.lower\<close>, which \<open>cmd_assign\<close> uses. \<open>/help\<close> and
  \<open>/history\<close> do not read the active bill and are left out; so is the branch of each
  handler for a chat without an active bill (there \<open>/newbill\<close> inserts \<open>new_bill_doc\<close> and
  every other handler answers without writing).
\<close>

datatype event =
    Newbill
  | Join
  | Additem pystr "pyfloat option"
  | Items
  | Pick "int option"
  | Unpick "int option"
  | Assign "(int \<times> pystr) option"
  | Resetpicks
  | Setfees setfees_args
  | Done int
  | Cancel
  | Callback callback_data
  | Photo "(pystr \<times> pyfloat) list"
  | Text "pyfloat option"

fun handle_event ::
  "(pystr \<Rightarrow> pystr) \<Rightarrow> pyfloat bill \<Rightarrow> user \<Rightarrow> event \<Rightarrow> reply \<times> pyfloat bill option" where
  "handle_event lower b u Newbill = cmd_newbill b"
| "handle_event lower b u Join = cmd_join b u"
| "handle_event lower b u (Additem text price_result) = cmd_additem b text price_result"
| "handle_event lower b u Items = cmd_items b"
| "handle_event lower b u (Pick arg) = cmd_pick b u arg"
| "handle_event lower b u (Unpick arg) = cmd_unpick b u arg"
| "handle_event lower b u (Assign arg) = cmd_assign lower b u arg"
| "handle_event lower b u Resetpicks = cmd_resetpicks b u"
| "handle_event lower b u (Setfees args) = cmd_setfees b args"
| "handle_event lower b u (Done now) = cmd_done b now"
| "handle_event lower b u Cancel = cmd_cancel b u"
| "handle_event lower b u (Callback data) = callback_handler b u data"
| "handle_event lower b u (Photo ocr_items) = photo_handler b ocr_items"
| "handle_event lower b u (Text parsed) = text_handler b parsed"

section \<open>Properties under test\<close>

text \<open>
  The three fee modes of the specification, and its table of grand totals: the second
  definition follows the specification, to be compared with \<open>bill_grand_total\<close>. Its
  operations are rounded like those of the program.
\<close>

datatype fee_mode = AllInclusive | ServiceChargeExclusiveVatInclusive | BothExclusive

definition mode_of :: "string option \<Rightarrow> fee_mode option" where
  "mode_of m =
     (if m = Some ''both_inclusive'' then Some AllInclusive
      else if m = Some ''sc_exclusive_vat_inclusive'' then Some ServiceChargeExclusiveVatInclusive
      else if m = Some ''both_exclusive'' then Some BothExclusive
      else None)"

definition spec_grand_total ::
  "rounding \<Rightarrow> fee_mode option \<Rightarrow> real \<Rightarrow> real \<Rightarrow> real \<Rightarrow> real" where
  "spec_grand_total rnd mode subtotal sc vat =
     (case mode of
        None \<Rightarrow> subtotal
      | Some AllInclusive \<Rightarrow> subtotal
      | Some ServiceChargeExclusiveVatInclusive \<Rightarrow>
          fmul rnd subtotal (fadd rnd 1 (fdiv rnd sc 100))
      | Some BothExclusive \<Rightarrow>
          (let afterSc = fmul rnd subtotal (fadd rnd 1 (fdiv rnd sc 100))
           in fmul rnd afterSc (fadd rnd 1 (fdiv rnd vat 100))))"








text \<open>
  The invariants of the data model that the fee arithmetic relies on: member identifiers
  are the keys of a dictionary, prices are positive, a member holds at most one claim on an
  item, every claim is a member's, and the one division by a stored percentage
  (\<open>total / (1 + vat_pct / 100)\<close>) does not divide by zero.
\<close>

definition prices_positive :: "real bill \<Rightarrow> bool" where
  "prices_positive b = list_all (\<lambda>it. 0 < price it) (items b)"



text \<open>What a member's claim on an item contributes to \<open>person_total\<close>, and the factor
  between the item subtotal and the grand total.\<close>

definition claimed_share :: "int \<Rightarrow> real item \<Rightarrow> real" where
  "claimed_share uid it =
     (if claims_item uid it then price it / real (max 1 (length (claimed_by it))) else 0)"

definition fee_factor :: "real bill \<Rightarrow> real" where
  "fee_factor b =
     spec_grand_total exact (mode_of (fees_mode b)) 1
       (or_zero (service_charge_pct b)) (or_zero (vat_pct b))"

text \<open>Events that choose the currency; the input that \<open>/additem\<close> turns down; two presses
  of a pick button; the members who claim an item; a bill with the user added to its
  members, as the pick button does.\<close>

definition is_currency_choice :: "event \<Rightarrow> bool" where
  "is_currency_choice e = (case e of Callback (CbCurrency cur) \<Rightarrow> True | _ \<Rightarrow> False)"

definition price_rejected :: "pyfloat option \<Rightarrow> bool" where
  "price_rejected price_result = (case price_result of None \<Rightarrow> True | Some p \<Rightarrow> py_le0 p)"

definition toggle_twice :: "pyfloat bill \<Rightarrow> user \<Rightarrow> int \<Rightarrow> pyfloat bill option" where
  "toggle_twice b u i =
     (case snd (callback_handler b u (CbPick i)) of
        None \<Rightarrow> None
      | Some b1 \<Rightarrow> snd (callback_handler b1 u (CbPick i)))"

definition claimants :: "'n item \<Rightarrow> int set" where
  "claimants it = set (map claim_user_id (claimed_by it))"

definition joined :: "pyfloat bill \<Rightarrow> user \<Rightarrow> pyfloat bill" where
  "joined b u =
     (if \<not> is_member (user_id u) b
      then b\<lparr> members := members b @ [(user_id u, display_name u)] \<rparr> else b)"

section \<open>Example bills\<close>

text \<open>The Python string of an ASCII text, and \<open>str.lower()\<close> as it is on ASCII text.\<close>

definition str_of :: "string \<Rightarrow> pystr" where
  "str_of s = map of_char s"

definition ascii_lower :: "pystr \<Rightarrow> pystr" where
  "ascii_lower s = map (\<lambda>c. if 65 \<le> c \<and> c \<le> 90 then c + 32 else c) s"

text \<open>
  The scenario of the specification: items A (300) and B (200), claimed by X (user 1) and
  Y (user 2), both fees on top, 10 and 7 percent.
\<close>

definition scenario_bill :: "real bill" where
  "scenario_bill =
     \<lparr> chat_id = 1, creator_id = 1, creator_name = str_of ''@x'',
       currency = Some ''THB'', jpy_to_thb_rate = None,
       service_charge_pct = Some 10, vat_pct = Some 7, fees_mode = Some ''both_exclusive'',
       items = [\<lparr> item_id = 1, item_name = str_of ''A'', price = 300,
                   claimed_by = [\<lparr> claim_user_id = 1, claim_name = str_of ''@x'' \<rparr>] \<rparr>,
                \<lparr> item_id = 2, item_name = str_of ''B'', price = 200,
                   claimed_by = [\<lparr> claim_user_id = 2, claim_name = str_of ''@y'' \<rparr>] \<rparr>],
       members = [(1, str_of ''@x''), (2, str_of ''@y'')], next_item_id = 3,
       created_at = 0, is_finalized = False, finalized_at = None, awaiting_photo = False,
       awaiting_manual_rate = False, awaiting_fees = False \<rparr>"




definition ann :: user where
  "ann = \<lparr> user_id = 10, display_name = str_of ''@ann'' \<rparr>"

definition bob :: user where
  "bob = \<lparr> user_id = 20, display_name = str_of ''@bob'' \<rparr>"

text \<open>Bob after he changed his Telegram username.\<close>

definition bobby :: user where
  "bobby = \<lparr> user_id = 20, display_name = str_of ''@bobby'' \<rparr>"

definition fresh_bill :: "pyfloat bill" where
  "fresh_bill = new_bill_doc 1 10 (str_of ''@ann'') 0"

definition thb_bill :: "pyfloat bill" where
  "thb_bill = fresh_bill\<lparr> currency := Some ''THB'' \<rparr>"

definition pad_thai :: "pyfloat item" where
  "pad_thai = \<lparr> item_id = 1, item_name = str_of ''Pad Thai'', price = Fin 150,
                 claimed_by = [\<lparr> claim_user_id = 20, claim_name = str_of ''@bob'' \<rparr>] \<rparr>"

text \<open>Ann's bill with one item, which Bob has claimed.\<close>

definition lunch_bill :: "pyfloat bill" where
  "lunch_bill = thb_bill\<lparr> items := [pad_thai],
                          members := [(10, str_of ''@ann''), (20, str_of ''@bob'')],
                          next_item_id := 2 \<rparr>"

section \<open>The per-person share\<close>

lemma exact_ops [simp]:
  "exact x = x" "fadd exact a b = a + b" "fsub exact a b = a - b"
  "fmul exact a b = a * b" "fdiv exact a b = a / b"
  by (simp_all add: exact_def fadd_def fsub_def fmul_def fdiv_def)

lemma py_sum_exact [simp]: "py_sum exact xs = sum_list xs"
proof -
  have "foldl (fadd exact) a xs = a + sum_list xs" for a
    by (induction xs arbitrary: a) simp_all
  then show ?thesis by (simp add: py_sum_def)
qed

lemma bill_total_exact: "bill_total exact b = sum_list (map price (items b))"
  by (simp add: bill_total_def)

lemma item_per_person_rnd:
  "item_per_person rnd it =
     Inr (if claimed_by it = [] then price it
          else rnd (price it / real (length (claimed_by it))))"
  by (cases "claimed_by it") (simp_all add: item_per_person_def py_div_def Let_def)

lemma item_per_person_eq:
  "item_per_person exact it = Inr (price it / real (max 1 (length (claimed_by it))))"
  by (cases "claimed_by it") (simp_all add: item_per_person_def py_div_def Let_def max_def)

text \<open>
  C9. For every item the per-person share is computed without error (no division by zero),
  whatever the rounding: an item with no claim is priced at its full value, and an item with
  claims at its price divided by their number. In exact arithmetic that is
  \<open>price / max(1, number of claims)\<close>.
\<close>

theorem C9_item_per_person:
  "item_per_person rnd it =
     Inr (if claimed_by it = [] then price it
          else rnd (price it / real (length (claimed_by it))))
   \<and> item_per_person exact it = Inr (price it / real (max 1 (length (claimed_by it))))
   \<and> item_per_person rnd (it\<lparr>claimed_by := []\<rparr>) = Inr (price it)"
  using item_per_person_rnd [of rnd it] item_per_person_eq [of it]
    item_per_person_rnd [of rnd "it\<lparr>claimed_by := []\<rparr>"]
  by simp

lemma person_total_loop_eq:
  "person_total_loop exact its uid acc = Inr (acc + sum_list (map (claimed_share uid) its))"
  by (induction its arbitrary: acc) (simp_all add: claimed_share_def item_per_person_eq)

lemma person_total_eq:
  "person_total exact b uid = Inr (sum_list (map (claimed_share uid) (items b)))"
  by (simp add: person_total_def person_total_loop_eq)

section \<open>Grand total\<close>

lemma grand_total_spec:
  "bill_grand_total rnd b =
     spec_grand_total rnd (mode_of (fees_mode b)) (bill_total rnd b)
       (or_zero (service_charge_pct b)) (or_zero (vat_pct b))"
  by (simp add: bill_grand_total_def spec_grand_total_def mode_of_def Let_def)

text \<open>
  C2. For every bill and every rounding of the arithmetic, the grand total is the
  specification's formula for the bill's mode, applied to the item subtotal and the
  effective percentages: the subtotal for \<open>AllInclusive\<close> and for no mode,
  \<open>subtotal * (1 + sc/100)\<close> for \<open>ServiceChargeExclusiveVatInclusive\<close>,
  \<open>subtotal * (1 + sc/100) * (1 + vat/100)\<close> for \<open>BothExclusive\<close>.
\<close>

theorem C2_grand_total:
  "bill_grand_total rnd b =
     spec_grand_total rnd (mode_of (fees_mode b)) (bill_total rnd b)
       (or_zero (service_charge_pct b)) (or_zero (vat_pct b))"
  by (rule grand_total_spec)

theorem C2_grand_total_witness:
  "bill_grand_total exact scenario_bill = 5885 / 10
   \<and> bill_grand_total exact (scenario_bill\<lparr>fees_mode := Some ''sc_exclusive_vat_inclusive''\<rparr>) = 550
   \<and> bill_grand_total exact (scenario_bill\<lparr>fees_mode := Some ''both_inclusive''\<rparr>) = 500
   \<and> bill_grand_total exact (scenario_bill\<lparr>fees_mode := None\<rparr>) = 500"
  using C2_grand_total [of exact scenario_bill]
    C2_grand_total [of exact "scenario_bill\<lparr>fees_mode := Some ''sc_exclusive_vat_inclusive''\<rparr>"]
    C2_grand_total [of exact "scenario_bill\<lparr>fees_mode := Some ''both_inclusive''\<rparr>"]
    C2_grand_total [of exact "scenario_bill\<lparr>fees_mode := None\<rparr>"]
  by (simp add: scenario_bill_def bill_total_exact spec_grand_total_def mode_of_def or_zero_def)


lemma fee_factor_items [simp]: "fee_factor (b\<lparr>items := xs\<rparr>) = fee_factor b"
  by (simp add: fee_factor_def)

section \<open>Fees are inert without a mode\<close>

lemma sum_list_pos:
  "\<forall>x\<in>set xs. (0::real) < x \<Longrightarrow> xs \<noteq> [] \<Longrightarrow> 0 < sum_list xs"
proof (induction xs)
  case Nil
  then show ?case by simp
next
  case (Cons a xs)
  then show ?case by (cases "xs = []") (auto intro: add_pos_pos)
qed

lemma bill_total_zero_items:
  assumes "prices_positive b" and "bill_total exact b = 0"
  shows "items b = []"
proof (rule ccontr)
  assume "items b \<noteq> []"
  moreover have "\<forall>x\<in>set (map price (items b)). 0 < x"
    using assms(1) by (auto simp: prices_positive_def list_all_iff)
  ultimately have "0 < sum_list (map price (items b))"
    by (intro sum_list_pos) auto
  with assms(2) show False by (simp add: bill_total_exact)
qed

text \<open>
  C6. For every bill with positive prices whose fee mode is unset, whatever percentages are
  stored: the grand total is the item subtotal, and every member's fee breakdown is the
  member's item subtotal, a zero service charge, a zero VAT and the item subtotal again as
  the amount to pay.
\<close>

theorem C6_unset_mode_inert:
  assumes "fees_mode b = None" and "prices_positive b"
  shows "bill_grand_total exact b = bill_total exact b
       \<and> (\<exists>p. person_total exact b uid = Inr p \<and> person_fee_breakdown exact b uid = Inr (p, 0, 0, p))"
proof (cases "bill_total exact b = 0")
  case True
  with assms(2) have "items b = []" by (rule bill_total_zero_items)
  then show ?thesis using assms(1) True
    by (simp add: bill_grand_total_def person_fee_breakdown_def person_total_eq Let_def)
next
  case False
  then show ?thesis using assms(1)
    by (simp add: bill_grand_total_def person_fee_breakdown_def person_total_eq Let_def)
qed

theorem C6_unset_mode_inert_witness:
  "fees_mode (scenario_bill\<lparr>fees_mode := None\<rparr>) = None
   \<and> service_charge_pct (scenario_bill\<lparr>fees_mode := None\<rparr>) = Some 10
   \<and> prices_positive (scenario_bill\<lparr>fees_mode := None\<rparr>)
   \<and> bill_grand_total exact (scenario_bill\<lparr>fees_mode := None\<rparr>) = 500
   \<and> person_fee_breakdown exact (scenario_bill\<lparr>fees_mode := None\<rparr>) 1 = Inr (300, 0, 0, 300)"
proof -
  let ?b = "scenario_bill\<lparr>fees_mode := None\<rparr>"
  have h1: "fees_mode ?b = None" by simp
  have h2: "prices_positive ?b" by (simp add: prices_positive_def scenario_bill_def)
  have t: "bill_total exact ?b = 500" by (simp add: bill_total_exact scenario_bill_def)
  have p: "person_total exact ?b 1 = Inr 300"
    by (simp add: person_total_def scenario_bill_def claims_item_def item_per_person_def py_div_def)
  from C6_unset_mode_inert [OF h1 h2, of 1] t p h2 show ?thesis
    by (simp add: scenario_bill_def)
qed

section \<open>The two per-person totals\<close>





subsection \<open>The same computations on doubles\<close>






























section \<open>Conservation\<close>















subsection \<open>Conservation on doubles\<close>


























section \<open>The currency of a session\<close>

lemma add_items_currency: "currency (add_items b xs) = currency b"
  by (induction b xs rule: add_items.induct) (simp_all add: add_item_to_bill_def Let_def)

lemma update_item_ids: "(\<And>x. item_id (f x) = item_id x) \<Longrightarrow> map item_id (update_item i f xs) = map item_id xs"
  by (induction xs) simp_all

lemma toggle_pick_currency:
  "toggle_pick b u i = (r, Some b') \<Longrightarrow> currency b' = currency b"
  by (cases "get_item b i"; cases "is_member (user_id u) b")
     (auto simp: toggle_pick_def Let_def split: if_splits)

lemma callback_currency:
  assumes "callback_handler b u d = (r, Some b')"
    and "\<not> ((case d of CbCurrency cur \<Rightarrow> True | _ \<Rightarrow> False) \<and> user_id u = creator_id b)"
  shows "currency b' = currency b"
proof (cases d)
  case (CbPick i)
  then show ?thesis using assms(1) toggle_pick_currency[of b u i r b']
    by (simp add: callback_handler_def)
next
  case (CbRateAuto fetched)
  then show ?thesis using assms(1)
    by (cases fetched) (auto simp: callback_handler_def split: if_splits)
qed (use assms in \<open>auto simp: callback_handler_def split: if_splits\<close>)

lemma cmd_additem_currency:
  "cmd_additem b text pr = (r, Some b') \<Longrightarrow> currency b' = currency b"
  by (cases "rsplit1 text" rule: list.exhaust; cases pr)
     (auto simp: cmd_additem_def add_item_to_bill_def Let_def split: if_splits list.splits)

lemma cmd_setfees_currency:
  "cmd_setfees b args = (r, Some b') \<Longrightarrow> currency b' = currency b"
  by (auto simp: cmd_setfees_def Let_def split: if_splits setfees_args.splits option.splits)

lemma cmd_pick_currency:
  "cmd_pick b u arg = (r, Some b') \<Longrightarrow> currency b' = currency b"
  by (auto simp: cmd_pick_def split: if_splits option.splits)

lemma cmd_unpick_currency:
  "cmd_unpick b u arg = (r, Some b') \<Longrightarrow> currency b' = currency b"
  by (auto simp: cmd_unpick_def split: if_splits option.splits)

lemma cmd_assign_currency:
  "cmd_assign lower b u arg = (r, Some b') \<Longrightarrow> currency b' = currency b"
  by (auto simp: cmd_assign_def split: if_splits option.splits prod.splits)

lemma handle_event_currency:
  assumes "handle_event lower b u e = (r, Some b')"
    and "\<not> (is_currency_choice e \<and> user_id u = creator_id b)"
  shows "currency b' = currency b"
proof (cases e)
  case (Callback d)
  then show ?thesis using assms callback_currency[of b u d r b']
    by (cases d) (simp_all add: is_currency_choice_def)
next
  case (Additem tx pr)
  then show ?thesis using assms(1) cmd_additem_currency by simp
next
  case (Setfees args)
  then show ?thesis using assms(1) cmd_setfees_currency by simp
next
  case (Photo xs)
  then show ?thesis using assms(1)
    by (auto simp: photo_handler_def Let_def add_items_currency split: if_splits)
next
  case (Pick arg)
  then show ?thesis using assms(1) cmd_pick_currency by simp
next
  case (Unpick arg)
  then show ?thesis using assms(1) cmd_unpick_currency by simp
next
  case (Assign arg)
  then show ?thesis using assms(1) cmd_assign_currency by simp
next
  case Newbill
  then show ?thesis using assms(1) by (simp add: cmd_newbill_def)
next
  case Join
  then show ?thesis using assms(1) by (auto simp: cmd_join_def split: if_splits)
next
  case Items
  then show ?thesis using assms(1) by (auto simp: cmd_items_def split: if_splits)
next
  case Resetpicks
  then show ?thesis using assms(1) by (auto simp: cmd_resetpicks_def Let_def split: if_splits)
next
  case (Done now)
  then show ?thesis using assms(1) by (auto simp: cmd_done_def split: if_splits)
next
  case Cancel
  then show ?thesis using assms(1) by (auto simp: cmd_cancel_def split: if_splits)
next
  case (Text parsed)
  then show ?thesis using assms(1)
    by (auto simp: text_handler_def split: if_splits option.splits)
qed

text \<open>
  C3, amended. For every active bill and every event other than a currency choice made by
  the bill's creator, the bill that the handler leaves behind has the currency it had
  before. A currency choice by the creator overwrites the currency, also when one is
  already set. (Whatever the case folding \<open>lower\<close> of \<open>/assign\<close> is.)
\<close>

theorem C3_currency_preserved:
  "(handle_event lower b u e = (r, Some b') \<and> \<not> (is_currency_choice e \<and> user_id u = creator_id b)
      \<longrightarrow> currency b' = currency b)
   \<and> (user_id u = creator_id b \<longrightarrow>
        handle_event lower b u (Callback (CbCurrency cur))
          = (Replied (CurrencySet cur), Some (b\<lparr>currency := Some cur\<rparr>)))"
  using handle_event_currency [of lower b u e r b'] by (simp add: callback_handler_def)

theorem C3_currency_preserved_witness:
  "handle_event ascii_lower thb_bill bob (Callback (CbCurrency ''JPY'')) = (Refused OnlyCreatorSet, Some thb_bill)
   \<and> handle_event ascii_lower thb_bill bob Join
       = (Replied Joined, Some (thb_bill\<lparr>members := [(10, str_of ''@ann''), (20, str_of ''@bob'')]\<rparr>))
   \<and> currency (thb_bill\<lparr>members := [(10, str_of ''@ann''), (20, str_of ''@bob'')]\<rparr>) = Some ''THB''
   \<and> handle_event ascii_lower thb_bill ann (Callback (CbCurrency ''THB''))
       = (Replied (CurrencySet ''THB''), Some (thb_bill\<lparr>currency := Some ''THB''\<rparr>))"
proof -
  let ?b' = "thb_bill\<lparr>members := [(10, str_of ''@ann''), (20, str_of ''@bob'')]\<rparr>"
  have h0: "handle_event ascii_lower thb_bill bob (Callback (CbCurrency ''JPY''))
              = (Refused OnlyCreatorSet, Some thb_bill)"
    by (simp add: callback_handler_def thb_bill_def fresh_bill_def new_bill_doc_def bob_def)
  have h1: "handle_event ascii_lower thb_bill bob Join = (Replied Joined, Some ?b')"
    by (simp add: cmd_join_def is_member_def thb_bill_def fresh_bill_def new_bill_doc_def bob_def)
  have h2: "\<not> (is_currency_choice Join \<and> user_id bob = creator_id thb_bill)"
    by (simp add: is_currency_choice_def)
  have h3: "user_id ann = creator_id thb_bill"
    by (simp add: thb_bill_def fresh_bill_def new_bill_doc_def ann_def)
  have c: "currency thb_bill = Some ''THB''" by (simp add: thb_bill_def)
  from C3_currency_preserved [of ascii_lower thb_bill bob Join "Replied Joined" ?b' "''THB''"]
    C3_currency_preserved [of ascii_lower thb_bill ann Join "Replied Joined" ?b' "''THB''"]
    h0 h1 h2 h3 c
  show ?thesis by simp
qed

text \<open>
  The property as stated fails for a second currency choice: the creator chooses THB, then
  JPY, and the currency of the session changes from THB to JPY.
\<close>

theorem C3_currency_counterexample:
  "handle_event ascii_lower fresh_bill ann (Callback (CbCurrency ''THB''))
     = (Replied (CurrencySet ''THB''), Some thb_bill)
   \<and> currency thb_bill = Some ''THB''
   \<and> handle_event ascii_lower thb_bill ann (Callback (CbCurrency ''JPY''))
       = (Replied (CurrencySet ''JPY''), Some (thb_bill\<lparr>currency := Some ''JPY''\<rparr>))
   \<and> currency (thb_bill\<lparr>currency := Some ''JPY''\<rparr>) \<noteq> currency thb_bill"
  by (simp add: callback_handler_def thb_bill_def fresh_bill_def new_bill_doc_def ann_def)

section \<open>Adding an item\<close>

lemma last_dropWhile_ne:
  "dropWhile P xs \<noteq> [] \<Longrightarrow> last (dropWhile P xs) = last xs"
  by (induction xs) (auto split: if_splits)

lemma strip_nonempty:
  assumes "xs \<noteq> []" and "\<not> is_space (last xs)"
  shows "strip xs \<noteq> []"
proof -
  let ?ys = "dropWhile is_space xs"
  have "last xs \<in> set xs" using assms(1) by simp
  then have ne: "?ys \<noteq> []" using assms(2) by (auto simp: dropWhile_eq_Nil_conv)
  have "last ?ys = last xs" using ne by (rule last_dropWhile_ne)
  then have "\<not> is_space (hd (rev ?ys))" using ne assms(2) by (simp add: hd_rev)
  then have "dropWhile is_space (rev ?ys) = rev ?ys" using ne by (cases "rev ?ys") auto
  then show ?thesis using ne by (simp add: strip_def)
qed

lemma rsplit1_name:
  assumes "rsplit1 text = [part0, part1]"
  shows "strip part0 \<noteq> []"
proof -
  define r where "r = dropWhile is_space (rev text)"
  define w where "w = takeWhile (\<lambda>c. \<not> is_space c) r"
  define rest where "rest = dropWhile is_space (dropWhile (\<lambda>c. \<not> is_space c) r)"
  have eq: "rsplit1 text = (if r = [] then [] else if rest = [] then [rev w] else [rev rest, rev w])"
    unfolding rsplit1_def Let_def r_def w_def rest_def ..
  have ne: "rest \<noteq> []"
  proof
    assume "rest = []"
    with eq assms show False by (cases "r = []") simp_all
  qed
  have p0: "part0 = rev rest"
    using eq assms ne by (cases "r = []") simp_all
  have "\<not> is_space (hd rest)" using ne unfolding rest_def by (rule hd_dropWhile)
  then have "\<not> is_space (last part0)" using ne p0 by (simp add: last_rev)
  moreover have "part0 \<noteq> []" using ne p0 by simp
  ultimately show ?thesis by (rule strip_nonempty[rotated])
qed

lemma rsplit1_length: "length (rsplit1 text) \<le> 2"
proof -
  define r where "r = dropWhile is_space (rev text)"
  define w where "w = takeWhile (\<lambda>c. \<not> is_space c) r"
  define rest where "rest = dropWhile is_space (dropWhile (\<lambda>c. \<not> is_space c) r)"
  have eq: "rsplit1 text = (if r = [] then [] else if rest = [] then [rev w] else [rev rest, rev w])"
    unfolding rsplit1_def Let_def r_def w_def rest_def ..
  show ?thesis unfolding eq by (cases "r = []"; cases "rest = []") simp_all
qed

lemma rsplit1_Nil: "rsplit1 [] = []"
  by (simp add: rsplit1_def)

lemma cmd_additem_reject_parts:
  "length (rsplit1 text) < 2 \<Longrightarrow> \<exists>r. cmd_additem b text pr = (Refused r, Some b)"
  by (cases "rsplit1 text" rule: list.exhaust; cases "tl (rsplit1 text)")
     (simp_all add: cmd_additem_def)

lemma cmd_additem_reject_empty:
  "cmd_additem b [] pr = (Refused AddItemUsage, Some b)"
  by (simp add: cmd_additem_def)

lemma cmd_additem_two:
  assumes "rsplit1 text = [p0, p1]"
  shows "cmd_additem b text pr =
           (case pr of
              None \<Rightarrow> (Refused InvalidPrice, Some b)
            | Some p \<Rightarrow>
                if py_le0 p then (Refused InvalidPrice, Some b)
                else (Replied (Added (next_item_id b) (strip p0) p),
                      Some (b\<lparr>items := items b @ [\<lparr>item_id = next_item_id b, item_name = strip p0,
                                                    price = p, claimed_by = []\<rparr>],
                              next_item_id := next_item_id b + 1\<rparr>)))"
proof -
  have "text \<noteq> []" using assms rsplit1_Nil by auto
  then show ?thesis using assms
    by (simp add: cmd_additem_def add_item_to_bill_def Let_def split: option.splits)
qed

lemma additem_cases:
  "((text = [] \<or> length (rsplit1 text) < 2 \<or> price_rejected price_result)
      \<and> (\<exists>r. cmd_additem b text price_result = (Refused r, Some b)))
   \<or> (\<not> (text = [] \<or> length (rsplit1 text) < 2 \<or> price_rejected price_result)
      \<and> (\<exists>nm p. price_result = Some p \<and> \<not> py_le0 p
          \<and> nm = strip (hd (rsplit1 text)) \<and> nm \<noteq> []
          \<and> cmd_additem b text price_result
              = (Replied (Added (next_item_id b) nm p),
                 Some (b\<lparr>items := items b @ [\<lparr>item_id = next_item_id b, item_name = nm,
                                               price = p, claimed_by = []\<rparr>],
                         next_item_id := next_item_id b + 1\<rparr>))))"
proof (cases "length (rsplit1 text) < 2")
  case True
  then show ?thesis using cmd_additem_reject_parts[OF True, of b price_result] by simp
next
  case False
  with rsplit1_length[of "text"] have "length (rsplit1 text) = 2" by simp
  then obtain p0 p1 where two: "rsplit1 text = [p0, p1]"
    by (metis (no_types) length_0_conv length_Suc_conv numeral_2_eq_2)
  have ne: "text \<noteq> []" using two rsplit1_Nil by auto
  have nm: "strip p0 \<noteq> []" using two by (rule rsplit1_name)
  show ?thesis
  proof (cases price_result)
    case None
    then show ?thesis using cmd_additem_two[OF two, of b price_result]
      by (simp add: price_rejected_def)
  next
    case (Some p)
    then show ?thesis using cmd_additem_two[OF two, of b price_result] two ne nm False
      by (simp add: price_rejected_def)
  qed
qed

text \<open>
  C4, amended. \<open>/additem\<close> turns the input down, with the bill unchanged (no item
  appended, next identifier not consumed), when the argument text is empty, when it does
  not split at whitespace (any white space of Unicode) into a name and a price word, when
  \<open>float()\<close> rejects the price word, and when the price satisfies \<open>price <= 0\<close>. It accepts every price that is greater than zero,
  finite or infinite, that comes with a name. Whenever it accepts, the name is non-empty
  after trimming, the price does not satisfy \<open>price <= 0\<close>, and the item is appended with
  no claim under the next identifier, which is then consumed.
\<close>

theorem C4_additem_validation:
  "(text = [] \<or> length (rsplit1 text) < 2 \<or> price_rejected price_result \<longrightarrow>
      (\<exists>r. cmd_additem b text price_result = (Refused r, Some b)))
   \<and> (length (rsplit1 text) = 2 \<and> (\<exists>p. price_result = Some p \<and> py_gt0 p) \<longrightarrow>
      (\<exists>n st. cmd_additem b text price_result = (Replied n, st)))
   \<and> (\<forall>n st. cmd_additem b text price_result = (Replied n, st) \<longrightarrow>
      (\<exists>nm p. price_result = Some p \<and> \<not> py_le0 p
          \<and> nm = strip (hd (rsplit1 text)) \<and> nm \<noteq> []
          \<and> n = Added (next_item_id b) nm p
          \<and> st = Some (b\<lparr>items := items b @ [\<lparr>item_id = next_item_id b, item_name = nm,
                                                price = p, claimed_by = []\<rparr>],
                          next_item_id := next_item_id b + 1\<rparr>)))"
proof -
  have gt: "\<not> py_le0 p" if "py_gt0 p" for p using that by (cases p) simp_all
  from additem_cases [of "text" price_result b] show ?thesis
  proof
    assume r: "(text = [] \<or> length (rsplit1 text) < 2 \<or> price_rejected price_result)
               \<and> (\<exists>r. cmd_additem b text price_result = (Refused r, Some b))"
    then have "\<not> (length (rsplit1 text) = 2 \<and> (\<exists>p. price_result = Some p \<and> py_gt0 p))"
      using gt rsplit1_Nil by (auto simp: price_rejected_def)
    with r show ?thesis by auto
  next
    assume a: "\<not> (text = [] \<or> length (rsplit1 text) < 2 \<or> price_rejected price_result)
               \<and> (\<exists>nm p. price_result = Some p \<and> \<not> py_le0 p
                     \<and> nm = strip (hd (rsplit1 text)) \<and> nm \<noteq> []
                     \<and> cmd_additem b text price_result
                         = (Replied (Added (next_item_id b) nm p),
                            Some (b\<lparr>items := items b @ [\<lparr>item_id = next_item_id b, item_name = nm,
                                                          price = p, claimed_by = []\<rparr>],
                                    next_item_id := next_item_id b + 1\<rparr>)))"
    then show ?thesis by auto
  qed
qed

theorem C4_additem_validation_witness:
  "cmd_additem fresh_bill (str_of ''Beer 0'') (Some (Fin 0)) = (Refused InvalidPrice, Some fresh_bill)
   \<and> cmd_additem fresh_bill (str_of ''150'') (Some (Fin 150))
       = (Refused ProvideNameAndPrice, Some fresh_bill)
   \<and> cmd_additem fresh_bill (str_of ''Pad Thai 150'') (Some (Fin 150))
       = (Replied (Added 1 (str_of ''Pad Thai'') (Fin 150)),
          Some (fresh_bill\<lparr>items := [\<lparr>item_id = 1, item_name = str_of ''Pad Thai'', price = Fin 150,
                                       claimed_by = []\<rparr>],
                           next_item_id := 2\<rparr>))
   \<and> cmd_additem fresh_bill (str_of ''Tea'' @ [0x3000] @ str_of ''5'') (Some (Fin 5))
       = (Replied (Added 1 (str_of ''Tea'') (Fin 5)),
          Some (fresh_bill\<lparr>items := [\<lparr>item_id = 1, item_name = str_of ''Tea'', price = Fin 5,
                                       claimed_by = []\<rparr>],
                           next_item_id := 2\<rparr>))"
proof -
  have s1: "rsplit1 (str_of ''Beer 0'') = [str_of ''Beer'', str_of ''0'']"
    by (simp add: rsplit1_def is_space_def str_of_def)
  have s2: "rsplit1 (str_of ''150'') = [str_of ''150'']"
    by (simp add: rsplit1_def is_space_def str_of_def)
  have s3: "rsplit1 (str_of ''Pad Thai 150'') = [str_of ''Pad Thai'', str_of ''150'']"
    by (simp add: rsplit1_def is_space_def str_of_def)
  have s4: "strip (str_of ''Pad Thai'') = str_of ''Pad Thai''"
    by (simp add: strip_def is_space_def str_of_def)
  have s5: "rsplit1 (str_of ''Tea'' @ [0x3000] @ str_of ''5'') = [str_of ''Tea'', str_of ''5'']"
    by (simp add: rsplit1_def is_space_def str_of_def)
  have s6: "strip (str_of ''Tea'') = str_of ''Tea''"
    by (simp add: strip_def is_space_def str_of_def)
  have n: "next_item_id fresh_bill = 1" "items fresh_bill = []"
    by (simp_all add: fresh_bill_def new_bill_doc_def)
  have a: "cmd_additem fresh_bill (str_of ''Beer 0'') (Some (Fin 0))
             = (Refused InvalidPrice, Some fresh_bill)"
    using C4_additem_validation [of "str_of ''Beer 0''" "Some (Fin 0)" fresh_bill] s1
    by (simp add: cmd_additem_def str_of_def)
  have b: "cmd_additem fresh_bill (str_of ''150'') (Some (Fin 150))
             = (Refused ProvideNameAndPrice, Some fresh_bill)"
    using C4_additem_validation [of "str_of ''150''" "Some (Fin 150)" fresh_bill] s2
    by (simp add: cmd_additem_def str_of_def)
  have c: "cmd_additem fresh_bill (str_of ''Pad Thai 150'') (Some (Fin 150))
             = (Replied (Added 1 (str_of ''Pad Thai'') (Fin 150)),
                Some (fresh_bill\<lparr>items := [\<lparr>item_id = 1, item_name = str_of ''Pad Thai'',
                                             price = Fin 150, claimed_by = []\<rparr>],
                                 next_item_id := 2\<rparr>))"
    using C4_additem_validation [of "str_of ''Pad Thai 150''" "Some (Fin 150)" fresh_bill] s3 s4 n
    by (simp add: price_rejected_def) blast
  have d: "cmd_additem fresh_bill (str_of ''Tea'' @ [0x3000] @ str_of ''5'') (Some (Fin 5))
             = (Replied (Added 1 (str_of ''Tea'') (Fin 5)),
                Some (fresh_bill\<lparr>items := [\<lparr>item_id = 1, item_name = str_of ''Tea'',
                                             price = Fin 5, claimed_by = []\<rparr>],
                                 next_item_id := 2\<rparr>))"
    using C4_additem_validation [of "str_of ''Tea'' @ [0x3000] @ str_of ''5''" "Some (Fin 5)" fresh_bill]
      s5 s6 n
    by (simp add: price_rejected_def) blast
  from a b c d show ?thesis by simp
qed

text \<open>
  The property as stated fails for a non-finite price: \<open>/additem Beer inf\<close> is accepted, with
  the price \<open>float("inf")\<close>.
\<close>

theorem C4_additem_counterexample:
  "cmd_additem fresh_bill (str_of ''Beer inf'') (Some PInf)
     = (Replied (Added 1 (str_of ''Beer'') PInf),
        Some (fresh_bill\<lparr>items := [\<lparr>item_id = 1, item_name = str_of ''Beer'', price = PInf,
                                     claimed_by = []\<rparr>],
                         next_item_id := 2\<rparr>))"
proof -
  have s: "rsplit1 (str_of ''Beer inf'') = [str_of ''Beer'', str_of ''inf'']"
    by (simp add: rsplit1_def is_space_def str_of_def)
  have t: "strip (str_of ''Beer'') = str_of ''Beer''"
    by (simp add: strip_def is_space_def str_of_def)
  have n: "next_item_id fresh_bill = 1" "items fresh_bill = []"
    by (simp_all add: fresh_bill_def new_bill_doc_def)
  show ?thesis using cmd_additem_two [OF s, of fresh_bill "Some PInf"] t n by simp
qed

section \<open>Toggling a claim\<close>

lemma find_item_id: "find (\<lambda>x. item_id x = i) xs = Some it \<Longrightarrow> item_id it = i"
  by (induction xs) (auto split: if_splits)

lemma find_update_item:
  "find (\<lambda>x. item_id x = i) xs = Some it \<Longrightarrow> item_id (f it) = i
   \<Longrightarrow> find (\<lambda>x. item_id x = i) (update_item i f xs) = Some (f it)"
  by (induction xs) (auto split: if_splits)

lemma update_item_twice:
  "find (\<lambda>x. item_id x = i) xs = Some it \<Longrightarrow> item_id (f it) = i
   \<Longrightarrow> update_item i g (update_item i f xs) = update_item i (\<lambda>x. g (f x)) xs"
  by (induction xs) (auto split: if_splits)

lemma update_item_fix:
  "find (\<lambda>x. item_id x = i) xs = Some it \<Longrightarrow> f it = it \<Longrightarrow> update_item i f xs = xs"
  by (induction xs) (auto split: if_splits)

lemma remove_append_claim:
  "\<not> claims_item uid it \<Longrightarrow> remove_claims uid (append_claim uid nm it) = it"
  by (simp add: remove_claims_def append_claim_def claims_item_def list_ex_iff filter_id_conv)

lemma claims_append [simp]: "claims_item uid (append_claim uid nm it)"
  by (simp add: claims_item_def append_claim_def)

lemma claims_remove [simp]: "\<not> claims_item uid (remove_claims uid it)"
  by (simp add: claims_item_def remove_claims_def list_ex_iff)

lemma item_id_append [simp]: "item_id (append_claim uid nm it) = item_id it"
  by (simp add: append_claim_def)

lemma item_id_remove [simp]: "item_id (remove_claims uid it) = item_id it"
  by (simp add: remove_claims_def)

lemma joined_simps [simp]:
  "items (joined b u) = items b" "is_member (user_id u) (joined b u)"
  "get_item (joined b u) i = get_item b i"
  by (simp_all add: joined_def is_member_def get_item_def)

lemma toggle_pick_found:
  assumes "get_item b i = Some it"
  shows "toggle_pick b u i =
           (if claims_item (user_id u) it
            then (Replied (RemovedFrom (item_id it)),
                  Some ((joined b u)\<lparr> items := update_item i (remove_claims (user_id u)) (items b) \<rparr>))
            else (Replied (PickedItem (item_id it)),
                  Some ((joined b u)\<lparr> items :=
                     update_item i (append_claim (user_id u) (display_name u)) (items b) \<rparr>)))"
  using assms by (simp add: toggle_pick_def joined_def Let_def)

lemma joined_again:
  "is_member (user_id u) b \<Longrightarrow> joined b u = b"
  by (simp add: joined_def)

lemma claimants_readd:
  assumes "claims_item uid it"
  shows "claimants (append_claim uid nm (remove_claims uid it)) = claimants it"
  using assms
  by (auto simp: claimants_def append_claim_def remove_claims_def claims_item_def list_ex_iff)

lemma claim_eqI:
  "claim_user_id c = uid \<Longrightarrow> claim_name c = nm \<Longrightarrow> c = \<lparr>claim_user_id = uid, claim_name = nm\<rparr>"
  by (cases c) simp

lemma claims_readd:
  assumes "claims_item uid it"
    and "\<forall>c\<in>set (claimed_by it). claim_user_id c = uid \<longrightarrow> claim_name c = nm"
  shows "set (claimed_by (append_claim uid nm (remove_claims uid it))) = set (claimed_by it)"
proof -
  from assms(1) obtain c where c: "c \<in> set (claimed_by it)" "claim_user_id c = uid"
    by (auto simp: claims_item_def list_ex_iff)
  have all: "d = \<lparr>claim_user_id = uid, claim_name = nm\<rparr>"
    if "d \<in> set (claimed_by it)" "claim_user_id d = uid" for d
    using that assms(2) by (intro claim_eqI) auto
  from all[OF c] c have in_: "\<lparr>claim_user_id = uid, claim_name = nm\<rparr> \<in> set (claimed_by it)"
    by simp
  let ?k = "\<lparr>claim_user_id = uid, claim_name = nm\<rparr>"
  have A: "set (claimed_by (append_claim uid nm (remove_claims uid it)))
             = {d \<in> set (claimed_by it). claim_user_id d \<noteq> uid} \<union> {?k}"
    by (simp add: append_claim_def remove_claims_def)
  have B: "{d \<in> set (claimed_by it). claim_user_id d = uid} = {?k}"
  proof (intro equalityI subsetI)
    fix d assume "d \<in> {d \<in> set (claimed_by it). claim_user_id d = uid}"
    then have "d = ?k" using all[of d] by simp
    then show "d \<in> {?k}" by simp
  next
    fix d assume "d \<in> {?k}"
    then have "d = ?k" by simp
    then show "d \<in> {d \<in> set (claimed_by it). claim_user_id d = uid}" using in_ by simp
  qed
  have C: "set (claimed_by it) = {d \<in> set (claimed_by it). claim_user_id d \<noteq> uid}
             \<union> {d \<in> set (claimed_by it). claim_user_id d = uid}"
    by blast
  show ?thesis unfolding A B[symmetric] using C by simp
qed

lemma update_item_const:
  "find (\<lambda>x. item_id x = i) xs = Some it \<Longrightarrow> update_item i f xs = update_item i (\<lambda>x. f it) xs"
  by (induction xs) (auto split: if_splits)

lemma joined_items_same [simp]: "(joined b u)\<lparr>items := items b\<rparr> = joined b u"
  by (simp add: joined_def)

lemma toggle_presses:
  assumes "get_item b i = Some it"
  shows "\<exists>b1 it1 b2 it2.
           callback_handler b u (CbPick i)
             = (Replied (if claims_item (user_id u) it then RemovedFrom i else PickedItem i), Some b1)
         \<and> b1 = (joined b u)\<lparr>items := update_item i (\<lambda>x. it1) (items b)\<rparr>
         \<and> get_item b1 i = Some it1
         \<and> callback_handler b1 u (CbPick i)
             = (Replied (if claims_item (user_id u) it then PickedItem i else RemovedFrom i), Some b2)
         \<and> b2 = (joined b u)\<lparr>items := update_item i (\<lambda>x. it2) (items b)\<rparr>
         \<and> get_item b2 i = Some it2
         \<and> toggle_twice b u i = Some b2
         \<and> it1 = it\<lparr>claimed_by :=
                     if claims_item (user_id u) it
                     then filter (\<lambda>c. claim_user_id c \<noteq> user_id u) (claimed_by it)
                     else claimed_by it @ [\<lparr>claim_user_id = user_id u, claim_name = display_name u\<rparr>]\<rparr>
         \<and> it2 = it\<lparr>claimed_by :=
                     if claims_item (user_id u) it
                     then filter (\<lambda>c. claim_user_id c \<noteq> user_id u) (claimed_by it)
                          @ [\<lparr>claim_user_id = user_id u, claim_name = display_name u\<rparr>]
                     else claimed_by it\<rparr>
         \<and> claims_item (user_id u) it1 = (\<not> claims_item (user_id u) it)
         \<and> claims_item (user_id u) it2 = claims_item (user_id u) it
         \<and> claimants it2 = claimants it
         \<and> (\<not> claims_item (user_id u) it \<longrightarrow> it2 = it \<and> b2 = joined b u)
         \<and> ((\<forall>c\<in>set (claimed_by it). claim_user_id c = user_id u \<longrightarrow> claim_name c = display_name u)
                \<longrightarrow> set (claimed_by it2) = set (claimed_by it))"
proof -
  let ?uid = "user_id u" and ?nm = "display_name u"
  have f: "find (\<lambda>x. item_id x = i) (items b) = Some it"
    using assms by (simp add: get_item_def)
  have id: "item_id it = i" using f by (rule find_item_id)
  show ?thesis
  proof (cases "claims_item ?uid it")
    case True
    let ?it1 = "remove_claims ?uid it"
    let ?it2 = "append_claim ?uid ?nm (remove_claims ?uid it)"
    let ?b1 = "(joined b u)\<lparr> items := update_item i (\<lambda>x. ?it1) (items b) \<rparr>"
    let ?b2 = "(joined b u)\<lparr> items := update_item i (\<lambda>x. ?it2) (items b) \<rparr>"
    have u1: "update_item i (remove_claims ?uid) (items b) = update_item i (\<lambda>x. ?it1) (items b)"
      using f by (rule update_item_const)
    have 1: "callback_handler b u (CbPick i) = (Replied (RemovedFrom i), Some ?b1)"
      using True toggle_pick_found[OF assms, of u] id u1 by (simp add: callback_handler_def)
    have g1: "get_item ?b1 i = Some ?it1"
      using find_update_item[OF f, of "\<lambda>x. ?it1"] id by (simp add: get_item_def)
    have m1: "is_member ?uid ?b1" using joined_simps(2)[of u b] by (simp add: is_member_def)
    have u2: "update_item i (append_claim ?uid ?nm) (update_item i (\<lambda>x. ?it1) (items b))
            = update_item i (\<lambda>x. ?it2) (items b)"
      using f id by (simp add: update_item_twice [where f = "\<lambda>x. ?it1"])
    have 2: "callback_handler ?b1 u (CbPick i) = (Replied (PickedItem i), Some ?b2)"
      using toggle_pick_found[OF g1, of u] joined_again[OF m1] id u2
      by (simp add: callback_handler_def)
    have g2: "get_item ?b2 i = Some ?it2"
      using find_update_item[OF f, of "\<lambda>x. ?it2"] id by (simp add: get_item_def)
    have t: "toggle_twice b u i = Some ?b2" using 1 2 by (simp add: toggle_twice_def)
    have s1: "?it1 = it\<lparr>claimed_by := filter (\<lambda>c. claim_user_id c \<noteq> ?uid) (claimed_by it)\<rparr>"
      by (simp add: remove_claims_def)
    have s2: "?it2 = it\<lparr>claimed_by := filter (\<lambda>c. claim_user_id c \<noteq> ?uid) (claimed_by it)
                          @ [\<lparr>claim_user_id = ?uid, claim_name = ?nm\<rparr>]\<rparr>"
      by (simp add: remove_claims_def append_claim_def)
    have c1: "\<not> claims_item ?uid ?it1" by simp
    have c2: "claims_item ?uid ?it2" by simp
    have cl: "claimants ?it2 = claimants it" using True by (rule claimants_readd)
    have recs: "(\<forall>c\<in>set (claimed_by it). claim_user_id c = ?uid \<longrightarrow> claim_name c = ?nm)
                  \<longrightarrow> set (claimed_by ?it2) = set (claimed_by it)"
      using True by (simp add: claims_readd)
    show ?thesis
      apply (rule exI [where x = ?b1], rule exI [where x = ?it1])
      apply (rule exI [where x = ?b2], rule exI [where x = ?it2])
      using True 1 g1 2 g2 t s1 s2 c1 c2 cl recs by simp
  next
    case False
    let ?it1 = "append_claim ?uid ?nm it"
    let ?b1 = "(joined b u)\<lparr> items := update_item i (\<lambda>x. ?it1) (items b) \<rparr>"
    let ?b2 = "(joined b u)\<lparr> items := update_item i (\<lambda>x. it) (items b) \<rparr>"
    have u1: "update_item i (append_claim ?uid ?nm) (items b) = update_item i (\<lambda>x. ?it1) (items b)"
      using f by (rule update_item_const)
    have 1: "callback_handler b u (CbPick i) = (Replied (PickedItem i), Some ?b1)"
      using False toggle_pick_found[OF assms, of u] id u1 by (simp add: callback_handler_def)
    have g1: "get_item ?b1 i = Some ?it1"
      using find_update_item[OF f, of "\<lambda>x. ?it1"] id by (simp add: get_item_def)
    have m1: "is_member ?uid ?b1" using joined_simps(2)[of u b] by (simp add: is_member_def)
    have undo: "remove_claims ?uid ?it1 = it" using False by (rule remove_append_claim)
    have u2: "update_item i (remove_claims ?uid) (update_item i (\<lambda>x. ?it1) (items b))
            = update_item i (\<lambda>x. it) (items b)"
      using f id undo by (simp add: update_item_twice [where f = "\<lambda>x. ?it1"])
    have 2: "callback_handler ?b1 u (CbPick i) = (Replied (RemovedFrom i), Some ?b2)"
      using toggle_pick_found[OF g1, of u] joined_again[OF m1] id u2
      by (simp add: callback_handler_def)
    have same: "update_item i (\<lambda>x. it) (items b) = items b"
      using f by (rule update_item_fix) simp
    have g2: "get_item ?b2 i = Some it" using assms same by (simp add: get_item_def)
    have t: "toggle_twice b u i = Some ?b2" using 1 2 by (simp add: toggle_twice_def)
    have s1: "?it1 = it\<lparr>claimed_by := claimed_by it @ [\<lparr>claim_user_id = ?uid, claim_name = ?nm\<rparr>]\<rparr>"
      by (simp add: append_claim_def)
    have c1: "claims_item ?uid ?it1" by simp
    have b2: "?b2 = joined b u" using same by simp
    show ?thesis
      apply (rule exI [where x = ?b1], rule exI [where x = ?it1])
      apply (rule exI [where x = ?b2], rule exI [where x = it])
      using False 1 g1 2 g2 t s1 c1 b2 by simp
  qed
qed

lemma toggle_twice_result:
  assumes "get_item b i = Some it"
  shows "toggle_twice b u i =
           Some ((joined b u)\<lparr> items := update_item i
                    (\<lambda>x. if claims_item (user_id u) it
                         then append_claim (user_id u) (display_name u) (remove_claims (user_id u) it)
                         else it)
                    (items b) \<rparr>)"
proof -
  from toggle_presses [OF assms, of u] obtain b1 it1 b2 it2 where
    t: "toggle_twice b u i = Some b2"
    and b2: "b2 = (joined b u)\<lparr>items := update_item i (\<lambda>x. it2) (items b)\<rparr>"
    and it2: "it2 = it\<lparr>claimed_by :=
                     if claims_item (user_id u) it
                     then filter (\<lambda>c. claim_user_id c \<noteq> user_id u) (claimed_by it)
                          @ [\<lparr>claim_user_id = user_id u, claim_name = display_name u\<rparr>]
                     else claimed_by it\<rparr>"
    by blast
  have "it2 = (if claims_item (user_id u) it
               then append_claim (user_id u) (display_name u) (remove_claims (user_id u) it)
               else it)"
    by (simp add: it2 append_claim_def remove_claims_def)
  then show ?thesis using t b2 by simp
qed

text \<open>
  C5, amended. For every bill, every item of it and every user, the item's pick button
  toggles the user's claim: pressed by a user who holds no claim on the item it appends the
  claim \<open>{user_id, name}\<close> with the user's current display name, and pressed again it
  removes that claim, which leaves the item and the items of the bill exactly as they were;
  pressed by a user who holds a claim it removes the user's claims, and pressed again it
  appends a claim with the user's current display name. Either way the two presses leave
  the same members claiming the item and change nothing of the item but its claim list, and
  nothing of the bill but the items and, if the user was no member, the members. When the
  user held a claim, the claims are the same set of records after the two presses provided
  that claim carried the user's current display name; the claim that is added back carries
  the current display name, not the stored one.
\<close>

theorem C5_toggle_twice:
  assumes "get_item b i = Some it"
  shows "\<exists>b1 it1 b2 it2.
           callback_handler b u (CbPick i)
             = (Replied (if claims_item (user_id u) it then RemovedFrom i else PickedItem i), Some b1)
         \<and> b1 = (joined b u)\<lparr>items := update_item i (\<lambda>x. it1) (items b)\<rparr>
         \<and> get_item b1 i = Some it1
         \<and> callback_handler b1 u (CbPick i)
             = (Replied (if claims_item (user_id u) it then PickedItem i else RemovedFrom i), Some b2)
         \<and> b2 = (joined b u)\<lparr>items := update_item i (\<lambda>x. it2) (items b)\<rparr>
         \<and> get_item b2 i = Some it2
         \<and> toggle_twice b u i = Some b2
         \<and> it1 = it\<lparr>claimed_by :=
                     if claims_item (user_id u) it
                     then filter (\<lambda>c. claim_user_id c \<noteq> user_id u) (claimed_by it)
                     else claimed_by it @ [\<lparr>claim_user_id = user_id u, claim_name = display_name u\<rparr>]\<rparr>
         \<and> it2 = it\<lparr>claimed_by :=
                     if claims_item (user_id u) it
                     then filter (\<lambda>c. claim_user_id c \<noteq> user_id u) (claimed_by it)
                          @ [\<lparr>claim_user_id = user_id u, claim_name = display_name u\<rparr>]
                     else claimed_by it\<rparr>
         \<and> claims_item (user_id u) it1 = (\<not> claims_item (user_id u) it)
         \<and> claims_item (user_id u) it2 = claims_item (user_id u) it
         \<and> claimants it2 = claimants it
         \<and> (\<not> claims_item (user_id u) it \<longrightarrow> it2 = it \<and> b2 = joined b u)
         \<and> ((\<forall>c\<in>set (claimed_by it). claim_user_id c = user_id u \<longrightarrow> claim_name c = display_name u)
                \<longrightarrow> set (claimed_by it2) = set (claimed_by it))"
  using assms by (rule toggle_presses)

theorem C5_toggle_twice_witness:
  "get_item lunch_bill 1 = Some pad_thai
   \<and> callback_handler lunch_bill ann (CbPick 1)
       = (Replied (PickedItem 1),
          Some (lunch_bill\<lparr>items := [pad_thai\<lparr>claimed_by :=
                  [\<lparr>claim_user_id = 20, claim_name = str_of ''@bob''\<rparr>,
                   \<lparr>claim_user_id = 10, claim_name = str_of ''@ann''\<rparr>]\<rparr>]\<rparr>))
   \<and> toggle_twice lunch_bill ann 1 = Some lunch_bill
   \<and> callback_handler lunch_bill bob (CbPick 1)
       = (Replied (RemovedFrom 1), Some (lunch_bill\<lparr>items := [pad_thai\<lparr>claimed_by := []\<rparr>]\<rparr>))
   \<and> toggle_twice lunch_bill bob 1 = Some lunch_bill"
proof -
  have g: "get_item lunch_bill 1 = Some pad_thai"
    by (simp add: get_item_def lunch_bill_def pad_thai_def)
  have ma: "joined lunch_bill ann = lunch_bill" "joined lunch_bill bob = lunch_bill"
    by (simp_all add: joined_def is_member_def lunch_bill_def ann_def bob_def)
  have ca: "\<not> claims_item (user_id ann) pad_thai" "claims_item (user_id bob) pad_thai"
    by (simp_all add: claims_item_def pad_thai_def ann_def bob_def)
  have i: "items lunch_bill = [pad_thai]" by (simp add: lunch_bill_def)
  have same: "lunch_bill\<lparr>items := [pad_thai]\<rparr> = lunch_bill" by (simp add: lunch_bill_def)
  have id: "item_id pad_thai = 1" by (simp add: pad_thai_def)
  have ua: "claimed_by pad_thai @ [\<lparr>claim_user_id = user_id ann, claim_name = display_name ann\<rparr>]
              = [\<lparr>claim_user_id = 20, claim_name = str_of ''@bob''\<rparr>,
                 \<lparr>claim_user_id = 10, claim_name = str_of ''@ann''\<rparr>]"
    by (simp add: pad_thai_def ann_def)
  have ub: "filter (\<lambda>c. claim_user_id c \<noteq> user_id bob) (claimed_by pad_thai) = []"
    by (simp add: pad_thai_def bob_def)
  have rb: "pad_thai\<lparr>claimed_by := [\<lparr>claim_user_id = user_id bob, claim_name = display_name bob\<rparr>]\<rparr>
              = pad_thai"
    by (simp add: pad_thai_def bob_def)
  have a: "callback_handler lunch_bill ann (CbPick 1)
       = (Replied (PickedItem 1),
          Some (lunch_bill\<lparr>items := [pad_thai\<lparr>claimed_by :=
                  [\<lparr>claim_user_id = 20, claim_name = str_of ''@bob''\<rparr>,
                   \<lparr>claim_user_id = 10, claim_name = str_of ''@ann''\<rparr>]\<rparr>]\<rparr>))
       \<and> toggle_twice lunch_bill ann 1 = Some lunch_bill"
    using C5_toggle_twice [OF g, of ann] ma ca i id ua by auto
  have b: "callback_handler lunch_bill bob (CbPick 1)
       = (Replied (RemovedFrom 1), Some (lunch_bill\<lparr>items := [pad_thai\<lparr>claimed_by := []\<rparr>]\<rparr>))
       \<and> toggle_twice lunch_bill bob 1 = Some lunch_bill"
    using C5_toggle_twice [OF g, of bob] ma ca i id ub rb same by auto
  from g a b show ?thesis by simp
qed

text \<open>
  The property as stated fails when the claim carries an older display name: Bob's claim was
  recorded as \<open>@bob\<close>; after two presses under the name \<open>@bobby\<close> the item's one claim is
  recorded as \<open>@bobby\<close>.
\<close>

theorem C5_toggle_counterexample:
  "get_item lunch_bill 1 = Some pad_thai
   \<and> claimed_by pad_thai = [\<lparr>claim_user_id = 20, claim_name = str_of ''@bob''\<rparr>]
   \<and> toggle_twice lunch_bill bobby 1
       = Some (lunch_bill\<lparr>items :=
                 [pad_thai\<lparr>claimed_by := [\<lparr>claim_user_id = 20, claim_name = str_of ''@bobby''\<rparr>]\<rparr>]\<rparr>)
   \<and> set [\<lparr>claim_user_id = 20, claim_name = str_of ''@bobby''\<rparr>] \<noteq> set (claimed_by pad_thai)"
proof -
  have g: "get_item lunch_bill 1 = Some pad_thai"
    by (simp add: get_item_def lunch_bill_def pad_thai_def)
  have m: "joined lunch_bill bobby = lunch_bill"
    by (simp add: joined_def is_member_def lunch_bill_def bobby_def)
  have c: "claims_item (user_id bobby) pad_thai"
    by (simp add: claims_item_def pad_thai_def bobby_def)
  have f: "append_claim (user_id bobby) (display_name bobby) (remove_claims (user_id bobby) pad_thai)
             = pad_thai\<lparr>claimed_by := [\<lparr>claim_user_id = 20, claim_name = str_of ''@bobby''\<rparr>]\<rparr>"
    by (simp add: append_claim_def remove_claims_def pad_thai_def bobby_def)
  have i: "items lunch_bill = [pad_thai]" by (simp add: lunch_bill_def)
  have "toggle_twice lunch_bill bobby 1
          = Some (lunch_bill\<lparr>items :=
                    [pad_thai\<lparr>claimed_by := [\<lparr>claim_user_id = 20, claim_name = str_of ''@bobby''\<rparr>]\<rparr>]\<rparr>)"
    using toggle_twice_result [OF g, of bobby] m c i f by (simp add: pad_thai_def)
  then show ?thesis using g by (simp add: pad_thai_def str_of_def)
qed

section \<open>Assigning and finalizing\<close>

lemma assign_already:
  assumes "user_id u = creator_id b" and "get_item b i = Some it"
    and "find_member lower (members b) target_username = Some (target_uid, target_name)"
    and "claims_item target_uid it"
  shows "cmd_assign lower b u (Some (i, target_username))
           = (Refused (AlreadyHas target_name (item_id it)), Some b)"
  using assms by (simp add: cmd_assign_def)

text \<open>
  C7. For every bill, when its creator assigns an item of the bill to a handle that
  resolves to a member who already holds a claim on the item, \<open>/assign\<close> answers that the
  member already has the item and leaves the bill as it is: the claim is not toggled off.
  The handle resolves to the first member whose stored name equals \<open>"@" + handle\<close> after
  case folding; the statement holds whatever the case folding \<open>lower\<close> is, hence for
  \<open>str.lower\<close>.
\<close>

theorem C7_assign_already_claimed:
  assumes "user_id u = creator_id b" and "get_item b i = Some it"
    and "find_member lower (members b) target_username = Some (target_uid, target_name)"
    and "claims_item target_uid it"
  shows "cmd_assign lower b u (Some (i, target_username))
           = (Refused (AlreadyHas target_name (item_id it)), Some b)"
  using assms by (rule assign_already)

theorem C7_assign_already_claimed_witness:
  "user_id ann = creator_id lunch_bill
   \<and> get_item lunch_bill 1 = Some pad_thai
   \<and> find_member ascii_lower (members lunch_bill) (str_of ''Bob'') = Some (20, str_of ''@bob'')
   \<and> claims_item 20 pad_thai
   \<and> handle_event ascii_lower lunch_bill ann (Assign (Some (1, str_of ''Bob'')))
       = (Refused (AlreadyHas (str_of ''@bob'') 1), Some lunch_bill)"
proof -
  have h1: "user_id ann = creator_id lunch_bill"
    by (simp add: ann_def lunch_bill_def thb_bill_def fresh_bill_def new_bill_doc_def)
  have h2: "get_item lunch_bill 1 = Some pad_thai"
    by (simp add: get_item_def lunch_bill_def pad_thai_def)
  have h3: "find_member ascii_lower (members lunch_bill) (str_of ''Bob'') = Some (20, str_of ''@bob'')"
    by (simp add: find_member_def lunch_bill_def ascii_lower_def str_of_def)
  have h4: "claims_item 20 pad_thai" by (simp add: claims_item_def pad_thai_def)
  have id: "item_id pad_thai = 1" by (simp add: pad_thai_def)
  from C7_assign_already_claimed [OF h1 h2 h3 h4] h1 h2 h3 h4 id show ?thesis by simp
qed

lemma finalize_both:
  "(items b = [] \<longrightarrow>
      cmd_done b now = (Refused NoItemsInBill, Some b)
      \<and> callback_handler b u (CbFinalize now) = (Refused NoItemsToFinalize, Some b))
   \<and> (items b \<noteq> [] \<longrightarrow>
      cmd_done b now = (Replied Summary, Some (b\<lparr>is_finalized := True, finalized_at := Some now\<rparr>))
      \<and> callback_handler b u (CbFinalize now)
           = (Replied Summary, Some (b\<lparr>is_finalized := True, finalized_at := Some now\<rparr>)))"
  by (simp add: cmd_done_def callback_handler_def)

text \<open>
  C8. For every active bill: with no item, \<open>/done\<close> and the finalize button both refuse
  and leave the bill as it is (hence not finalized); with at least one item, both leave
  the bill marked as finalized, with the time of finalization and nothing else changed.
\<close>

theorem C8_finalize:
  "(items b = [] \<longrightarrow>
      handle_event lower b u (Done now) = (Refused NoItemsInBill, Some b)
      \<and> handle_event lower b u (Callback (CbFinalize now)) = (Refused NoItemsToFinalize, Some b))
   \<and> (items b \<noteq> [] \<longrightarrow>
      handle_event lower b u (Done now)
        = (Replied Summary, Some (b\<lparr>is_finalized := True, finalized_at := Some now\<rparr>))
      \<and> handle_event lower b u (Callback (CbFinalize now))
        = (Replied Summary, Some (b\<lparr>is_finalized := True, finalized_at := Some now\<rparr>)))"
  using finalize_both [of b now u] by simp

theorem C8_finalize_witness:
  "items fresh_bill = [] \<and> is_finalized fresh_bill = False
   \<and> handle_event ascii_lower fresh_bill ann (Done 5) = (Refused NoItemsInBill, Some fresh_bill)
   \<and> handle_event ascii_lower fresh_bill bob (Callback (CbFinalize 5)) = (Refused NoItemsToFinalize, Some fresh_bill)
   \<and> items lunch_bill = [pad_thai]
   \<and> handle_event ascii_lower lunch_bill ann (Done 5)
       = (Replied Summary, Some (lunch_bill\<lparr>is_finalized := True, finalized_at := Some 5\<rparr>))
   \<and> handle_event ascii_lower lunch_bill bob (Callback (CbFinalize 5))
       = (Replied Summary, Some (lunch_bill\<lparr>is_finalized := True, finalized_at := Some 5\<rparr>))"
proof -
  have e: "items fresh_bill = []" "is_finalized fresh_bill = False"
    by (simp_all add: fresh_bill_def new_bill_doc_def)
  have i: "items lunch_bill = [pad_thai]" by (simp add: lunch_bill_def)
  from C8_finalize [of fresh_bill ascii_lower ann 5] C8_finalize [of fresh_bill ascii_lower bob 5]
    C8_finalize [of lunch_bill ascii_lower ann 5] C8_finalize [of lunch_bill ascii_lower bob 5] e i
  show ?thesis by simp
qed

end
